theory Spec2Isabelle
  imports Complex_Main
begin

section \<open>Values, exceptions and responses\<close>

text \<open>
  A Python float as \<open>json.load\<close> can produce it: a finite value (over-approximated by a
  rational), the two infinities or not-a-number.
\<close>

datatype pyfloat = Finite rat | PosInf | NegInf | NaN

text \<open>
  Text on disk and on the wire is UTF-8, a list of \<open>char\<close>. A Python \<open>str\<close> in memory
  holds more: \<open>json.loads\<close> turns the escape \<open>\ud800\<close> into a lone surrogate, a code
  point that UTF-8 cannot encode. A character of a Python string is therefore either a
  piece of encodable text or a lone surrogate (numbered from U+D800).
\<close>

datatype pychar = is_Ch: Ch (un_Ch: char) | Surrogate nat

definition str :: "string \<Rightarrow> pychar list" where
  "str s = map Ch s"

text \<open>
  JSON values over a character type: \<open>char json\<close> is what a file or a response body
  holds, \<open>pychar json\<close> is what \<open>json.load\<close> and \<open>json.loads\<close> return. A dict is an
  association list in insertion order; its keys are unique in Python, and a lookup takes
  the first binding.
\<close>

datatype 'c json =
    JNull
  | JBool bool
  | JInt int
  | JFloat pyfloat
  | JStr "'c list"
  | JArr "'c json list"
  | JObj "('c list \<times> 'c json) list"

text \<open>The exceptions the handlers can raise; \<open>ApiError\<close> is the dataclass of the source.\<close>

datatype pyexn =
    ApiError int string
  | AttributeError
  | TypeError
  | ValueError
  | OverflowError
  | JSONDecodeError
  | OSError
  | UnicodeEncodeError
  | RecursionError

text \<open>What \<open>_send_json\<close> and \<open>_send_text\<close> put on the wire: a status and a body.\<close>

datatype response = JsonResp int "char json" | TextResp int string

text \<open>
  The file at \<open>DOC_PATH\<close>: absent (\<open>None\<close>), holding bytes that are not JSON, or holding
  the UTF-8 text of a JSON value. A file whose text spells a lone surrogate as an escape
  is not among them: \<open>_write_json_atomic\<close> writes with \<open>ensure_ascii=False\<close> and never
  produces one.
\<close>

datatype doc_file = Garbage | Content "char json"

type_synonym store = "doc_file option"

text \<open>
  What \<open>_read_body_json\<close> makes of the request: no bytes to read, a \<open>Content-Length\<close> or
  bytes that cannot be decoded (a \<open>ValueError\<close> other than \<open>JSONDecodeError\<close>), text that
  is not JSON, or the value \<open>json.loads\<close> returns.
\<close>

datatype raw_body = NoBody | Undecodable | NotJson | Parsed "pychar json"

text \<open>
  The interpreter the server runs on: how the builtin \<open>int\<close> parses a string (\<open>None\<close>
  where it raises \<open>ValueError\<close>), and how much nesting \<open>json.load\<close> accepts beyond that of
  the seed document before the recursion limit stops it.
\<close>

record env =
  str2int :: "pychar list \<Rightarrow> int option"
  recursion_headroom :: nat

text \<open>
  A reading of the clock, \<open>datetime.now(timezone.utc)\<close>: the fields of the UTC date and
  time.
\<close>

record instant =
  year :: nat
  month :: nat
  day :: nat
  hour :: nat
  minute :: nat
  second :: nat
  microsecond :: nat

section \<open>Python primitives used by the handlers\<close>

definition digit :: "nat \<Rightarrow> char" where
  "digit n = ''0123456789'' ! (n mod 10)"

definition pad2 :: "nat \<Rightarrow> string" where
  "pad2 n = [digit (n div 10), digit n]"

definition pad4 :: "nat \<Rightarrow> string" where
  "pad4 n = [digit (n div 1000), digit (n div 100), digit (n div 10), digit n]"

text \<open>
  \<open>_utc_now_iso\<close>: \<open>isoformat(timespec="seconds")\<close> of a UTC datetime prints the date and
  the time down to the second, then the offset \<open>+00:00\<close>; the microseconds are dropped.
\<close>

definition utc_now_iso :: "instant \<Rightarrow> string" where
  "utc_now_iso now =
     pad4 (year now) @ ''-'' @ pad2 (month now) @ ''-'' @ pad2 (day now) @ ''T'' @
     pad2 (hour now) @ '':'' @ pad2 (minute now) @ '':'' @ pad2 (second now) @ ''+00:00''"

text \<open>\<open>d.get(k, dflt)\<close>: only a dict has the method.\<close>

definition dict_get :: "'c json \<Rightarrow> 'c list \<Rightarrow> 'c json \<Rightarrow> pyexn + 'c json" where
  "dict_get d k dflt =
     (case d of
        JObj kvs \<Rightarrow> Inr (case map_of kvs k of None \<Rightarrow> dflt | Some v \<Rightarrow> v)
      | _ \<Rightarrow> Inl AttributeError)"

text \<open>
  \<open>isinstance(x, int)\<close> together with the integer \<open>x\<close> then stands for: \<open>bool\<close> is a
  subclass of \<open>int\<close>, with \<open>True == 1\<close> and \<open>False == 0\<close>.
\<close>

definition as_int :: "'c json \<Rightarrow> int option" where
  "as_int x =
     (case x of
        JInt i \<Rightarrow> Some i
      | JBool b \<Rightarrow> Some (if b then 1 else 0)
      | _ \<Rightarrow> None)"

definition isinstance_int :: "'c json \<Rightarrow> bool" where
  "isinstance_int x = (as_int x \<noteq> None)"

definition isinstance_dict :: "'c json \<Rightarrow> bool" where
  "isinstance_dict x = (case x of JObj _ \<Rightarrow> True | _ \<Rightarrow> False)"

text \<open>
  The builtin \<open>int(x)\<close>, with its parsing of a string as a parameter; a float is truncated
  towards zero.
\<close>

definition py_int :: "('c list \<Rightarrow> int option) \<Rightarrow> 'c json \<Rightarrow> pyexn + int" where
  "py_int parse x =
     (case x of
        JInt i \<Rightarrow> Inr i
      | JBool b \<Rightarrow> Inr (if b then 1 else 0)
      | JFloat (Finite q) \<Rightarrow> Inr (if 0 \<le> q then \<lfloor>q\<rfloor> else \<lceil>q\<rceil>)
      | JFloat NaN \<Rightarrow> Inl ValueError
      | JFloat _ \<Rightarrow> Inl OverflowError
      | JStr s \<Rightarrow> (case parse s of None \<Rightarrow> Inl ValueError | Some i \<Rightarrow> Inr i)
      | _ \<Rightarrow> Inl TypeError)"

text \<open>Truth value testing, as \<open>not x\<close> applies it.\<close>

definition truthy :: "'c json \<Rightarrow> bool" where
  "truthy x =
     (case x of
        JNull \<Rightarrow> False
      | JBool b \<Rightarrow> b
      | JInt i \<Rightarrow> i \<noteq> 0
      | JFloat f \<Rightarrow> f \<noteq> Finite 0
      | JStr s \<Rightarrow> s \<noteq> []
      | JArr xs \<Rightarrow> xs \<noteq> []
      | JObj kvs \<Rightarrow> kvs \<noteq> [])"

text \<open>
  \<open>for t in x\<close>: a list gives its elements, a dict its keys, a string its characters;
  nothing else is iterable.
\<close>

definition py_iter :: "'c json \<Rightarrow> pyexn + 'c json list" where
  "py_iter x =
     (case x of
        JArr xs \<Rightarrow> Inr xs
      | JObj kvs \<Rightarrow> Inr (map (\<lambda>kv. JStr (fst kv)) kvs)
      | JStr s \<Rightarrow> Inr (map (\<lambda>c. JStr [c]) s)
      | _ \<Rightarrow> Inl TypeError)"

text \<open>How deep a value is nested: one level for each list or dict around a scalar.\<close>

primrec depth :: "'c json \<Rightarrow> nat" where
  "depth JNull = 0"
| "depth (JBool b) = 0"
| "depth (JInt i) = 0"
| "depth (JFloat f) = 0"
| "depth (JStr s) = 0"
| "depth (JArr xs) = Suc (fold max (map depth xs) 0)"
| "depth (JObj kvs) = Suc (fold max (map snd (map (map_prod id depth) kvs)) 0)"

text \<open>
  Reading UTF-8 text gives strings without surrogates. Writing a value as UTF-8 text
  (\<open>json.dump\<close> to a file opened with \<open>encoding="utf-8"\<close>, or \<open>json.dumps(...).encode("utf-8")\<close>,
  both with \<open>ensure_ascii=False\<close>) raises \<open>UnicodeEncodeError\<close> when a string or key of
  it holds a lone surrogate.
\<close>

definition decode :: "char json \<Rightarrow> pychar json" where
  "decode = map_json Ch"

definition encode :: "pychar json \<Rightarrow> pyexn + char json" where
  "encode v = (if pred_json is_Ch v then Inr (map_json un_Ch v) else Inl UnicodeEncodeError)"

section \<open>The document file\<close>

text \<open>
  The deepest nesting \<open>json.load\<close> accepts where \<open>_read_json\<close> calls it; beyond it the
  decoder raises \<open>RecursionError\<close>. An interpreter that runs the server at all loads the
  seed document, which is nested 4 deep. The request body is parsed by \<open>json.loads\<close>
  directly, one frame higher, where one more level can be accepted.
\<close>

definition load_limit :: "env \<Rightarrow> nat" where
  "load_limit E = 4 + recursion_headroom E"

definition read_json :: "env \<Rightarrow> store \<Rightarrow> pyexn + pychar json" where
  "read_json E s =
     (case s of
        None \<Rightarrow> Inl OSError
      | Some Garbage \<Rightarrow> Inl JSONDecodeError
      | Some (Content j) \<Rightarrow> if depth j \<le> load_limit E then Inr (decode j) else Inl RecursionError)"

text \<open>
  \<open>_write_json_atomic\<close>: when \<open>json.dump\<close> raises, \<open>os.replace\<close> is not reached and the
  file at \<open>DOC_PATH\<close> is as before.
\<close>

definition write_json_atomic :: "pychar json \<Rightarrow> store \<Rightarrow> pyexn + store" where
  "write_json_atomic data s =
     (case encode data of
        Inl e \<Rightarrow> Inl e
      | Inr text \<Rightarrow> Inr (Some (Content text)))"

definition seed_tasks :: "char json list" where
  "seed_tasks =
     [JObj [(''id'', JStr ''t1''), (''title'', JStr ''Example task 2025-12-16 3d''),
            (''done'', JBool False), (''collapsed'', JBool False), (''parentId'', JNull),
            (''order'', JInt 0), (''start'', JNull), (''end'', JNull)],
      JObj [(''id'', JStr ''t2''), (''title'', JStr ''Subtask 2025-12-18''),
            (''done'', JBool False), (''collapsed'', JBool False), (''parentId'', JStr ''t1''),
            (''order'', JInt 0), (''start'', JNull), (''end'', JNull)]]"

text \<open>The seed as it stands in the file; \<open>now\<close> is the clock when it is built.\<close>

definition seed :: "instant \<Rightarrow> char json" where
  "seed now =
     JObj [(''revision'', JInt 0), (''updatedAt'', JStr (utc_now_iso now)),
           (''doc'', JObj [(''tasks'', JArr seed_tasks)])]"

text \<open>
  \<open>_ensure_seed_doc\<close>. The seed dict is plain text, so its write cannot raise on a
  surrogate (\<open>write_seed\<close> below) and the function always returns.
\<close>

definition ensure_seed_doc :: "instant \<Rightarrow> store \<Rightarrow> store" where
  "ensure_seed_doc now s =
     (case s of
        Some f \<Rightarrow> s
      | None \<Rightarrow> (case write_json_atomic (decode (seed now)) s of Inr s' \<Rightarrow> s' | Inl e \<Rightarrow> s))"

section \<open>The handlers\<close>

text \<open>\<open>_send_json\<close>: the body is \<open>json.dumps(payload, ensure_ascii=False).encode("utf-8")\<close>.\<close>

definition send_json :: "int \<Rightarrow> pychar json \<Rightarrow> pyexn + response" where
  "send_json status payload =
     (case encode payload of
        Inl e \<Rightarrow> Inl e
      | Inr body \<Rightarrow> Inr (JsonResp status body))"

definition read_body_json :: "raw_body \<Rightarrow> pyexn + pychar json" where
  "read_body_json body =
     (case body of
        NoBody \<Rightarrow> Inl (ApiError 400 ''Missing request body'')
      | Undecodable \<Rightarrow> Inl ValueError
      | NotJson \<Rightarrow> Inl (ApiError 400 ''Invalid JSON'')
      | Parsed j \<Rightarrow> Inr j)"

definition handle_get_doc :: "env \<Rightarrow> instant \<Rightarrow> store \<Rightarrow> store \<times> (pyexn + response)" where
  "handle_get_doc E now s =
     (let s1 = ensure_seed_doc now s in
      case read_json E s1 of
        Inl e \<Rightarrow> (s1, Inl e)
      | Inr payload \<Rightarrow> (s1, send_json 200 payload))"

text \<open>
  \<open>_handle_put_doc\<close> in two stages: the first two statements, which load \<open>current\<close>
  (seeding at time \<open>t_seed\<close> when the file is absent), and the rest, which works on that
  local value and writes at time \<open>t_write\<close>.
\<close>

definition put_load :: "env \<Rightarrow> instant \<Rightarrow> store \<Rightarrow> store \<times> (pyexn + pychar json)" where
  "put_load E t_seed s = (let s1 = ensure_seed_doc t_seed s in (s1, read_json E s1))"

definition put_rest ::
  "env \<Rightarrow> instant \<Rightarrow> raw_body \<Rightarrow> pychar json \<Rightarrow> store \<Rightarrow> store \<times> (pyexn + response)" where
  "put_rest E t_write body current s =
     (case read_body_json body of
        Inl e \<Rightarrow> (s, Inl e)
      | Inr b \<Rightarrow>
     (case dict_get b (str ''baseRevision'') JNull of
        Inl e \<Rightarrow> (s, Inl e)
      | Inr base_revision \<Rightarrow>
     (case dict_get b (str ''doc'') JNull of
        Inl e \<Rightarrow> (s, Inl e)
      | Inr incoming_doc \<Rightarrow>
     (case as_int base_revision of
        None \<Rightarrow> (s, Inl (ApiError 400 ''baseRevision must be an integer''))
      | Some base \<Rightarrow>
     if \<not> isinstance_dict incoming_doc then (s, Inl (ApiError 400 ''doc must be an object''))
     else
     (case dict_get current (str ''revision'') (JInt 0) of
        Inl e \<Rightarrow> (s, Inl e)
      | Inr rv \<Rightarrow>
     (case py_int (str2int E) rv of
        Inl e \<Rightarrow> (s, Inl e)
      | Inr current_rev \<Rightarrow>
     if base \<noteq> current_rev then
       (s, send_json 409 (JObj [(str ''error'', JStr (str ''conflict'')), (str ''current'', current)]))
     else
       (let next_payload =
              JObj [(str ''revision'', JInt (current_rev + 1)),
                    (str ''updatedAt'', JStr (str (utc_now_iso t_write))),
                    (str ''doc'', incoming_doc)]
        in case write_json_atomic next_payload s of
             Inl e \<Rightarrow> (s, Inl e)
           | Inr s' \<Rightarrow> (s', send_json 200 next_payload))))))))"

definition handle_put_doc ::
  "env \<Rightarrow> instant \<Rightarrow> instant \<Rightarrow> raw_body \<Rightarrow> store \<Rightarrow> store \<times> (pyexn + response)" where
  "handle_put_doc E t_seed t_write body s =
     (case put_load E t_seed s of
        (s1, Inl e) \<Rightarrow> (s1, Inl e)
      | (s1, Inr current) \<Rightarrow> put_rest E t_write body current s1)"

text \<open>The list comprehension \<open>[t for t in tasks if not t.get("done")]\<close>.\<close>

fun inprogress_of :: "pychar json list \<Rightarrow> pyexn + pychar json list" where
  "inprogress_of [] = Inr []"
| "inprogress_of (t # ts) =
     (case dict_get t (str ''done'') JNull of
        Inl e \<Rightarrow> Inl e
      | Inr d \<Rightarrow>
          (case inprogress_of ts of
             Inl e \<Rightarrow> Inl e
           | Inr r \<Rightarrow> Inr (if \<not> truthy d then t # r else r)))"

definition handle_get_inprogress :: "env \<Rightarrow> instant \<Rightarrow> store \<Rightarrow> store \<times> (pyexn + response)" where
  "handle_get_inprogress E now s =
     (let s1 = ensure_seed_doc now s in
      case read_json E s1 of
        Inl e \<Rightarrow> (s1, Inl e)
      | Inr payload \<Rightarrow>
     (case dict_get payload (str ''doc'') (JObj []) of
        Inl e \<Rightarrow> (s1, Inl e)
      | Inr doc \<Rightarrow>
     (case dict_get doc (str ''tasks'') (JArr []) of
        Inl e \<Rightarrow> (s1, Inl e)
      | Inr tasks \<Rightarrow>
     (case py_iter tasks of
        Inl e \<Rightarrow> (s1, Inl e)
      | Inr ts \<Rightarrow>
     (case inprogress_of ts of
        Inl e \<Rightarrow> (s1, Inl e)
      | Inr inprogress \<Rightarrow> (s1, send_json 200 (JArr inprogress)))))))"

text \<open>
  The \<open>except\<close> clauses shared by \<open>do_GET\<close> and \<open>do_PUT\<close>; the error messages of the source
  are plain text.
\<close>

definition respond :: "pyexn + response \<Rightarrow> response" where
  "respond r =
     (case r of
        Inr resp \<Rightarrow> resp
      | Inl (ApiError status message) \<Rightarrow>
          if status \<ge> 500 then TextResp 500 ''Server error''
          else JsonResp status (JObj [(''error'', JStr message)])
      | Inl _ \<Rightarrow> TextResp 500 ''Server error'')"

definition do_PUT ::
  "env \<Rightarrow> instant \<Rightarrow> instant \<Rightarrow> string \<Rightarrow> raw_body \<Rightarrow> store \<Rightarrow> store \<times> response" where
  "do_PUT E t_seed t_write path body s =
     (if path = ''/api/doc'' then
        (case handle_put_doc E t_seed t_write body s of (s', r) \<Rightarrow> (s', respond r))
      else (s, respond (Inl (ApiError 404 ''Not found''))))"

text \<open>
  \<open>do_GET\<close>; \<open>serve_static\<close> stands for \<open>_serve_static_file\<close>, which reads the static
  directory and not the document.
\<close>

definition do_GET ::
  "env \<Rightarrow> (string \<Rightarrow> pyexn + response) \<Rightarrow> instant \<Rightarrow> string \<Rightarrow> store \<Rightarrow> store \<times> response" where
  "do_GET E serve_static now path s =
     (if path = ''/api/health'' then (s, JsonResp 200 (JObj [(''ok'', JBool True)]))
      else if path = ''/api/doc'' then
        (case handle_get_doc E now s of (s', r) \<Rightarrow> (s', respond r))
      else if path = ''/api/tasks/inprogress'' then
        (case handle_get_inprogress E now s of (s', r) \<Rightarrow> (s', respond r))
      else if path = ''/'' then (s, respond (serve_static ''index.html''))
      else if take 8 path = ''/static/'' then (s, respond (serve_static (drop 8 path)))
      else if take 1 path = ''/'' \<and> length path > 1 \<and> CHR ''/'' \<notin> set (drop 1 path) then
        (s, respond (serve_static (drop 1 path)))
      else (s, respond (Inl (ApiError 404 ''Not found''))))"

section \<open>Notions the properties are stated with\<close>

definition status :: "response \<Rightarrow> int" where
  "status r = (case r of JsonResp st _ \<Rightarrow> st | TextResp st _ \<Rightarrow> st)"

text \<open>
  The revision the put handler reads from the file: \<open>int(current.get("revision", 0))\<close> on
  what \<open>_read_json\<close> returns.
\<close>

definition stored_revision :: "env \<Rightarrow> store \<Rightarrow> pyexn + int" where
  "stored_revision E s =
     (case read_json E s of
        Inl e \<Rightarrow> Inl e
      | Inr current \<Rightarrow>
          (case dict_get current (str ''revision'') (JInt 0) of
             Inl e \<Rightarrow> Inl e
           | Inr rv \<Rightarrow> py_int (str2int E) rv))"

text \<open>The revision that stands in the file, whether or not the file can be loaded.\<close>

definition file_revision :: "store \<Rightarrow> int option" where
  "file_revision s =
     (case s of
        Some (Content (JObj kvs)) \<Rightarrow>
          (case map_of kvs ''revision'' of Some (JInt i) \<Rightarrow> Some i | _ \<Rightarrow> None)
      | _ \<Rightarrow> None)"

text \<open>
  The document a commit on revision \<open>r\<close> leaves in the file, for a payload whose text is
  \<open>payload\<close>, and the body of a conflict response.
\<close>

definition committed :: "int \<Rightarrow> instant \<Rightarrow> char json \<Rightarrow> char json" where
  "committed r now payload =
     JObj [(''revision'', JInt (r + 1)), (''updatedAt'', JStr (utc_now_iso now)),
           (''doc'', payload)]"

definition conflict :: "char json \<Rightarrow> char json" where
  "conflict current = JObj [(''error'', JStr ''conflict''), (''current'', current)]"

text \<open>
  A request as the server receives it, with the clock readings its handler will take:
  \<open>GET now path\<close>, and \<open>PUT t_seed t_write path body\<close>.
\<close>

datatype request = GET instant string | PUT instant instant string raw_body

definition handle ::
  "env \<Rightarrow> (string \<Rightarrow> pyexn + response) \<Rightarrow> request \<Rightarrow> store \<Rightarrow> store \<times> response" where
  "handle E serve_static req s =
     (case req of
        GET now path \<Rightarrow> do_GET E serve_static now path s
      | PUT t_seed t_write path body \<Rightarrow> do_PUT E t_seed t_write path body s)"

text \<open>Requests handled one after the other: each with its response and the file after it.\<close>

fun serve ::
  "env \<Rightarrow> (string \<Rightarrow> pyexn + response) \<Rightarrow> request list \<Rightarrow> store \<Rightarrow>
     (request \<times> response \<times> store) list" where
  "serve E serve_static [] s = []"
| "serve E serve_static (req # reqs) s =
     (case handle E serve_static req s of
        (s', resp) \<Rightarrow> (req, resp, s') # serve E serve_static reqs s')"

text \<open>An accepted write is a PUT answered 200; the revision it reports is in its body.\<close>

definition accepted :: "request \<Rightarrow> response \<Rightarrow> bool" where
  "accepted req resp = (case req of PUT _ _ _ _ \<Rightarrow> status resp = 200 | GET _ _ \<Rightarrow> False)"

definition response_revision :: "response \<Rightarrow> int option" where
  "response_revision resp =
     (case resp of
        JsonResp _ (JObj kvs) \<Rightarrow> (case map_of kvs ''revision'' of Some (JInt i) \<Rightarrow> Some i | _ \<Rightarrow> None)
      | _ \<Rightarrow> None)"

definition accepted_revisions :: "(request \<times> response \<times> store) list \<Rightarrow> int list" where
  "accepted_revisions tr =
     List.map_filter (\<lambda>(req, resp, s). if accepted req resp then response_revision resp else None) tr"

text \<open>
  The revision invariant along a run that starts at revision \<open>r\<close>: the revision is never
  negative, an accepted write reports \<open>r + 1\<close> and leaves it in the file, and any other
  request leaves the revision in the file at \<open>r\<close>.
\<close>

fun revisions_chain :: "int \<Rightarrow> (request \<times> response \<times> store) list \<Rightarrow> bool" where
  "revisions_chain r [] = (0 \<le> r)"
| "revisions_chain r ((req, resp, s) # rest) =
     (0 \<le> r \<and>
      (if accepted req resp then
         response_revision resp = Some (r + 1) \<and> file_revision s = Some (r + 1) \<and>
         revisions_chain (r + 1) rest
       else file_revision s = Some r \<and> revisions_chain r rest))"

text \<open>
  Two requests to \<open>_handle_put_doc\<close> on two threads of the \<open>ThreadingHTTPServer\<close>. The source
  takes no lock, so the threads can be switched between any two statements. The model
  switches at one place only, after \<open>current = _read_json(DOC_PATH)\<close>: a thread has either
  not started, or holds its local \<open>current\<close>, or has sent its response.
\<close>

datatype thread =
    Start instant instant raw_body
  | Loaded instant raw_body "pychar json"
  | Finished response

definition thread_step :: "env \<Rightarrow> thread \<Rightarrow> store \<Rightarrow> thread \<times> store" where
  "thread_step E th s =
     (case th of
        Start t_seed t_write body \<Rightarrow>
          (case put_load E t_seed s of
             (s1, Inl e) \<Rightarrow> (Finished (respond (Inl e)), s1)
           | (s1, Inr current) \<Rightarrow> (Loaded t_write body current, s1))
      | Loaded t_write body current \<Rightarrow>
          (case put_rest E t_write body current s of (s', r) \<Rightarrow> (Finished (respond r), s'))
      | Finished resp \<Rightarrow> (Finished resp, s))"

datatype turn = First | Second

fun run_schedule :: "env \<Rightarrow> turn list \<Rightarrow> thread \<times> thread \<times> store \<Rightarrow> thread \<times> thread \<times> store" where
  "run_schedule E [] cfg = cfg"
| "run_schedule E (First # ws) (a, b, s) =
     (case thread_step E a s of (a', s') \<Rightarrow> run_schedule E ws (a', b, s'))"
| "run_schedule E (Second # ws) (a, b, s) =
     (case thread_step E b s of (b', s') \<Rightarrow> run_schedule E ws (a, b', s'))"

text \<open>
  A task as the data model has it: an object whose \<open>done\<close>, when present, is a boolean.
\<close>

definition task_typed :: "char json \<Rightarrow> bool" where
  "task_typed t =
     (case t of
        JObj kvs \<Rightarrow> (case map_of kvs ''done'' of None \<Rightarrow> True | Some (JBool _) \<Rightarrow> True | Some _ \<Rightarrow> False)
      | _ \<Rightarrow> False)"

definition done_false_or_absent :: "char json \<Rightarrow> bool" where
  "done_false_or_absent t =
     (case t of
        JObj kvs \<Rightarrow> (case map_of kvs ''done'' of None \<Rightarrow> True | Some d \<Rightarrow> d = JBool False)
      | _ \<Rightarrow> False)"

text \<open>A task with its \<open>collapsed\<close> and \<open>parentId\<close> fields erased.\<close>

definition without_ui_fields :: "char json \<Rightarrow> char json" where
  "without_ui_fields t =
     (case t of
        JObj kvs \<Rightarrow> JObj (filter (\<lambda>kv. fst kv \<noteq> ''collapsed'' \<and> fst kv \<noteq> ''parentId'') kvs)
      | _ \<Rightarrow> t)"

text \<open>Lists nested in lists: \<open>nest n\<close> is \<open>[[...[]...]]\<close> with \<open>n + 1\<close> pairs of brackets.\<close>

primrec nest :: "nat \<Rightarrow> 'c json" where
  "nest 0 = JArr []"
| "nest (Suc n) = JArr [nest n]"

text \<open>
  Inputs for the examples: a clock reading with no microseconds, and an interpreter in
  which \<open>json.load\<close> accepts 986 levels of nesting. No example calls \<open>int\<close> on a string.
\<close>

definition clock :: "nat \<Rightarrow> nat \<Rightarrow> nat \<Rightarrow> nat \<Rightarrow> nat \<Rightarrow> nat \<Rightarrow> instant" where
  "clock y mo d h mi s =
     \<lparr>year = y, month = mo, day = d, hour = h, minute = mi, second = s, microsecond = 0\<rparr>"

definition interpreter :: env where
  "interpreter = \<lparr>str2int = (\<lambda>_. None), recursion_headroom = 982\<rparr>"

section \<open>Basic facts\<close>

lemma map_Ch_str: "map Ch = str"
  by (rule ext) (simp add: str_def)

lemma str_eq [simp]: "(str k = str k') = (k = k')"
  by (simp add: str_def inj_map_eq_map inj_def)

lemma str_Nil [simp]: "(str s = []) = (s = [])"
  by (simp add: str_def)

lemma str_plain [simp]: "list_all is_Ch (str s)" "map un_Ch (str s) = s"
  by (simp_all add: str_def list.pred_map comp_def list.pred_True)

lemma decode_simps [simp]:
  "decode JNull = JNull" "decode (JBool b) = JBool b" "decode (JInt i) = JInt i"
  "decode (JFloat f) = JFloat f" "decode (JStr s) = JStr (str s)"
  "decode (JArr xs) = JArr (map decode xs)"
  "decode (JObj kvs) = JObj (map (map_prod str decode) kvs)"
  by (simp_all add: decode_def map_Ch_str)

lemma encode_decode [simp]: "encode (decode w) = Inr w"
  by (simp add: encode_def decode_def json.pred_map json.map_comp comp_def json.map_ident
      json.pred_True)

lemma send_json_decode [simp]: "send_json st (decode w) = Inr (JsonResp st w)"
  by (simp add: send_json_def)

lemma encode_committed:
  "encode (JObj [(str ''revision'', JInt n), (str ''updatedAt'', JStr (str t)), (str ''doc'', d)]) =
     (case encode d of
        Inl e \<Rightarrow> Inl e
      | Inr w \<Rightarrow> Inr (JObj [(''revision'', JInt n), (''updatedAt'', JStr t), (''doc'', w)]))"
  by (simp add: encode_def)

lemma encode_conflict:
  "encode (JObj [(str ''error'', JStr (str ''conflict'')), (str ''current'', decode c)]) =
     Inr (conflict c)"
  using encode_decode [of "conflict c"] by (simp add: conflict_def)

lemma map_of_decode:
  "map_of (map (map_prod str f) kvs) (str k) = map_option f (map_of kvs k)"
  by (induction kvs) auto

lemma dict_get_decode:
  "dict_get (decode c) (str k) (decode d) = map_sum id decode (dict_get c k d)"
  by (cases c) (simp_all add: dict_get_def map_of_decode split: option.splits)

lemma write_seed: "write_json_atomic (decode (seed now)) s = Inr (Some (Content (seed now)))"
  by (simp add: write_json_atomic_def)

lemma ensure_seed_doc_Some [simp]: "ensure_seed_doc t (Some f) = Some f"
  by (simp add: ensure_seed_doc_def)

lemma ensure_seed_doc_None [simp]: "ensure_seed_doc t None = Some (Content (seed t))"
  by (simp add: ensure_seed_doc_def write_seed)

lemma depth_seed [simp]: "depth (seed t) = 4"
  by (simp add: seed_def seed_tasks_def)

lemma depth_committed [simp]: "depth (committed r t w) = Suc (depth w)"
  by (simp add: committed_def)

lemma read_json_seed [simp]: "read_json E (Some (Content (seed t))) = Inr (decode (seed t))"
  by (simp add: read_json_def load_limit_def)

lemma read_json_Inr:
  "read_json E s = Inr v \<Longrightarrow> \<exists>c. s = Some (Content c) \<and> depth c \<le> load_limit E \<and> v = decode c"
  by (auto simp: read_json_def split: option.splits doc_file.splits if_splits)

lemma read_json_Content: "depth c \<le> load_limit E \<Longrightarrow> read_json E (Some (Content c)) = Inr (decode c)"
  by (simp add: read_json_def)

lemma stored_revision_Content:
  "stored_revision E s = Inr r \<Longrightarrow> \<exists>c. s = Some (Content c) \<and> depth c \<le> load_limit E"
  by (auto simp: stored_revision_def dest!: read_json_Inr split: sum.splits)

lemma stored_revision_seed [simp]: "stored_revision E (Some (Content (seed t))) = Inr 0"
  by (simp add: stored_revision_def seed_def seed_tasks_def dict_get_def py_int_def
      read_json_def load_limit_def)

lemma stored_revision_committed:
  "depth w < load_limit E \<Longrightarrow> stored_revision E (Some (Content (committed r t w))) = Inr (r + 1)"
  by (simp add: stored_revision_def read_json_def committed_def dict_get_def py_int_def)

text \<open>A request that passes both type checks, on a file whose revision can be read.\<close>

lemma handle_put_doc_valid:
  assumes "dict_get b (str ''baseRevision'') JNull = Inr br" and "as_int br = Some base"
    and "dict_get b (str ''doc'') JNull = Inr d" and "isinstance_dict d"
    and "ensure_seed_doc t1 s = Some (Content c)"
    and "stored_revision E (Some (Content c)) = Inr r"
  shows "handle_put_doc E t1 t2 (Parsed b) s =
     (if base \<noteq> r then (Some (Content c), Inr (JsonResp 409 (conflict c)))
      else (case encode d of
              Inl e \<Rightarrow> (Some (Content c), Inl e)
            | Inr w \<Rightarrow> (Some (Content (committed r t2 w)), Inr (JsonResp 200 (committed r t2 w)))))"
proof -
  from assms(6) have d: "depth c \<le> load_limit E"
    using stored_revision_Content by blast
  then have rd: "read_json E (Some (Content c)) = Inr (decode c)"
    by (rule read_json_Content)
  from assms(6) rd obtain rv where rv: "dict_get (decode c) (str ''revision'') (JInt 0) = Inr rv"
    and pr: "py_int (str2int E) rv = Inr r"
    by (auto simp: stored_revision_def split: sum.splits)
  show ?thesis
    using assms(1-5) rd rv pr
    by (simp add: handle_put_doc_def put_load_def put_rest_def read_body_json_def Let_def
        send_json_def encode_conflict encode_committed write_json_atomic_def committed_def
        split: sum.splits)
qed

text \<open>A request that fails a type check, on a file that can be read.\<close>

lemma handle_put_doc_invalid:
  assumes "dict_get b (str ''baseRevision'') JNull = Inr br"
    and "dict_get b (str ''doc'') JNull = Inr d"
    and "as_int br = None \<or> \<not> isinstance_dict d"
    and "read_json E (ensure_seed_doc t1 s) = Inr current"
  shows "handle_put_doc E t1 t2 (Parsed b) s =
     (ensure_seed_doc t1 s,
      Inl (ApiError 400 (if as_int br = None then ''baseRevision must be an integer''
                         else ''doc must be an object'')))"
  using assms
  by (auto simp: handle_put_doc_def put_load_def put_rest_def read_body_json_def Let_def
      split: sum.splits option.splits)

lemma do_PUT_api_doc:
  "do_PUT E t1 t2 ''/api/doc'' body s =
     (fst (handle_put_doc E t1 t2 body s), respond (snd (handle_put_doc E t1 t2 body s)))"
  by (simp add: do_PUT_def split: prod.splits)

lemma respond_Inr [simp]: "respond (Inr r) = r"
  by (simp add: respond_def)

lemma respond_400 [simp]: "respond (Inl (ApiError 400 m)) = JsonResp 400 (JObj [(''error'', JStr m)])"
  by (simp add: respond_def)

lemma respond_encode_error [simp]: "respond (Inl UnicodeEncodeError) = TextResp 500 ''Server error''"
  by (simp add: respond_def)

lemma encode_exn: "encode v = Inl e \<Longrightarrow> e = UnicodeEncodeError"
  by (simp add: encode_def split: if_splits)


lemmas iso = clock_def utc_now_iso_def pad2_def pad4_def digit_def

lemma load_limit_interpreter [simp]: "load_limit interpreter = 986"
  by (simp add: load_limit_def interpreter_def)

section \<open>Accepted and rejected updates\<close>




text \<open>
  C2. A propose-update whose \<open>baseRevision\<close> differs from the stored revision writes nothing:
  the file is what lazy seeding leaves (an existing file is untouched), the response is 409
  with the document as persisted, and a fetch of the document right after returns that same
  document, so the same revision.
\<close>

theorem propose_update_conflict:
  assumes "dict_get b (str ''baseRevision'') JNull = Inr br" and "as_int br = Some base"
    and "dict_get b (str ''doc'') JNull = Inr payload" and "isinstance_dict payload"
    and "read_json E (ensure_seed_doc t_seed s) = Inr (decode current)"
    and "stored_revision E (ensure_seed_doc t_seed s) = Inr r" and "base \<noteq> r"
  shows "do_PUT E t_seed t_write ''/api/doc'' (Parsed b) s =
           (ensure_seed_doc t_seed s,
            JsonResp 409 (JObj [(''error'', JStr ''conflict''), (''current'', current)]))
         \<and> ensure_seed_doc t_seed s = (case s of None \<Rightarrow> Some (Content (seed t_seed)) | Some f \<Rightarrow> s)
         \<and> do_GET E serve_static t_get ''/api/doc'' (ensure_seed_doc t_seed s) =
           (ensure_seed_doc t_seed s, JsonResp 200 current)
         \<and> stored_revision E (fst (do_PUT E t_seed t_write ''/api/doc'' (Parsed b) s)) = Inr r"
proof -
  from assms(5) obtain c where c: "ensure_seed_doc t_seed s = Some (Content c)"
    and dc: "decode current = decode c"
    using read_json_Inr by blast
  from dc have "encode (decode current) = encode (decode c)" by simp
  then have cur: "c = current" by simp
  from c assms(6) have r: "stored_revision E (Some (Content c)) = Inr r" by simp
  have put: "handle_put_doc E t_seed t_write (Parsed b) s =
      (Some (Content c), Inr (JsonResp 409 (conflict c)))"
    using handle_put_doc_valid [OF assms(1-4) c r] assms(7) by simp
  have get: "handle_get_doc E t_get (Some (Content c)) =
      (Some (Content c), Inr (JsonResp 200 c))"
    using assms(5) c cur by (simp add: handle_get_doc_def)
  have lazy: "ensure_seed_doc t_seed s =
      (case s of None \<Rightarrow> Some (Content (seed t_seed)) | Some f \<Rightarrow> s)"
    by (cases s) simp_all
  have "do_PUT E t_seed t_write ''/api/doc'' (Parsed b) s =
      (ensure_seed_doc t_seed s,
       JsonResp 409 (JObj [(''error'', JStr ''conflict''), (''current'', current)]))"
    using put c cur by (simp add: do_PUT_api_doc conflict_def)
  moreover have "do_GET E serve_static t_get ''/api/doc'' (ensure_seed_doc t_seed s) =
      (ensure_seed_doc t_seed s, JsonResp 200 current)"
    using get c cur by (simp add: do_GET_def)
  moreover have "stored_revision E (fst (do_PUT E t_seed t_write ''/api/doc'' (Parsed b) s)) = Inr r"
    using put r by (simp add: do_PUT_api_doc)
  ultimately show ?thesis
    using lazy by blast
qed

theorem propose_update_conflict_witness:
  "do_PUT interpreter (clock 2026 2 3 0 0 0) (clock 2026 2 4 0 0 0) ''/api/doc''
      (Parsed (JObj [(str ''baseRevision'', JInt 3), (str ''doc'', JObj [(str ''tasks'', JArr [])])]))
      (Some (Content (seed (clock 2025 12 16 0 0 0)))) =
     (Some (Content (seed (clock 2025 12 16 0 0 0))),
      JsonResp 409 (JObj [(''error'', JStr ''conflict''),
                          (''current'', seed (clock 2025 12 16 0 0 0))]))"
  using propose_update_conflict [of
      "JObj [(str ''baseRevision'', JInt 3), (str ''doc'', JObj [(str ''tasks'', JArr [])])]"
      "JInt 3" 3 "JObj [(str ''tasks'', JArr [])]" interpreter "clock 2026 2 3 0 0 0"
      "Some (Content (seed (clock 2025 12 16 0 0 0)))" "seed (clock 2025 12 16 0 0 0)"
      0 "clock 2026 2 4 0 0 0"]
  by (simp add: dict_get_def as_int_def isinstance_dict_def)

text \<open>
  C3 as stated fails on the code: a negative \<open>baseRevision\<close> passes the type check and is
  answered 409, not 400; and the handler seeds and reads the file before it looks at the
  request, so an invalid request on an absent file leaves the seed document written.
\<close>

theorem invalid_request_counterexample:
  "do_PUT interpreter (clock 2026 2 3 0 0 0) (clock 2026 2 4 0 0 0) ''/api/doc''
      (Parsed (JObj [(str ''baseRevision'', JInt (- 1)), (str ''doc'', JObj [])]))
      (Some (Content (seed (clock 2025 12 16 0 0 0)))) =
     (Some (Content (seed (clock 2025 12 16 0 0 0))),
      JsonResp 409 (JObj [(''error'', JStr ''conflict''),
                          (''current'', seed (clock 2025 12 16 0 0 0))]))
   \<and> do_PUT interpreter (clock 2026 2 3 0 0 0) (clock 2026 2 4 0 0 0) ''/api/doc''
      (Parsed (JObj [(str ''baseRevision'', JStr (str ''zero'')), (str ''doc'', JObj [])])) None =
     (Some (Content (seed (clock 2026 2 3 0 0 0))),
      JsonResp 400 (JObj [(''error'', JStr ''baseRevision must be an integer'')]))"
proof -
  have v: "stored_revision interpreter (Some (Content (seed (clock 2025 12 16 0 0 0)))) = Inr 0"
    by simp
  have "handle_put_doc interpreter (clock 2026 2 3 0 0 0) (clock 2026 2 4 0 0 0)
      (Parsed (JObj [(str ''baseRevision'', JInt (- 1)), (str ''doc'', JObj [])]))
      (Some (Content (seed (clock 2025 12 16 0 0 0)))) =
     (Some (Content (seed (clock 2025 12 16 0 0 0))),
      Inr (JsonResp 409 (conflict (seed (clock 2025 12 16 0 0 0)))))"
    using handle_put_doc_valid [of
        "JObj [(str ''baseRevision'', JInt (- 1)), (str ''doc'', JObj [])]" "JInt (- 1)" "- 1"
        "JObj []" "clock 2026 2 3 0 0 0" "Some (Content (seed (clock 2025 12 16 0 0 0)))"
        "seed (clock 2025 12 16 0 0 0)" interpreter 0 "clock 2026 2 4 0 0 0", OF _ _ _ _ _ v]
    by (simp add: dict_get_def as_int_def isinstance_dict_def)
  moreover have "handle_put_doc interpreter (clock 2026 2 3 0 0 0) (clock 2026 2 4 0 0 0)
      (Parsed (JObj [(str ''baseRevision'', JStr (str ''zero'')), (str ''doc'', JObj [])])) None =
     (Some (Content (seed (clock 2026 2 3 0 0 0))),
      Inl (ApiError 400 ''baseRevision must be an integer''))"
    using handle_put_doc_invalid [of
        "JObj [(str ''baseRevision'', JStr (str ''zero'')), (str ''doc'', JObj [])]"
        "JStr (str ''zero'')" "JObj []" interpreter "clock 2026 2 3 0 0 0" None
        "decode (seed (clock 2026 2 3 0 0 0))" "clock 2026 2 4 0 0 0"]
    by (simp add: dict_get_def as_int_def)
  ultimately show ?thesis
    by (simp add: do_PUT_api_doc conflict_def)
qed

text \<open>
  C3, amended. When the body is a JSON object whose \<open>baseRevision\<close> is not an int (a bool
  counts as one, and so does a negative int) or whose \<open>doc\<close> is not an object, and the file
  can be read, the request is answered 400 and the handler writes nothing of its own: the
  file is what lazy seeding leaves, which happens before the checks.
\<close>

theorem invalid_request_rejected:
  assumes "dict_get b (str ''baseRevision'') JNull = Inr br"
    and "dict_get b (str ''doc'') JNull = Inr d"
    and "\<not> isinstance_int br \<or> \<not> isinstance_dict d"
    and "read_json E (ensure_seed_doc t_seed s) = Inr current"
  shows "do_PUT E t_seed t_write ''/api/doc'' (Parsed b) s =
           (ensure_seed_doc t_seed s,
            JsonResp 400 (JObj [(''error'',
              JStr (if \<not> isinstance_int br then ''baseRevision must be an integer''
                    else ''doc must be an object''))]))
         \<and> ensure_seed_doc t_seed s = (case s of None \<Rightarrow> Some (Content (seed t_seed)) | Some f \<Rightarrow> s)"
proof -
  from assms(3) have bad: "as_int br = None \<or> \<not> isinstance_dict d"
    by (simp add: isinstance_int_def)
  have lazy: "ensure_seed_doc t_seed s =
      (case s of None \<Rightarrow> Some (Content (seed t_seed)) | Some f \<Rightarrow> s)"
    by (cases s) simp_all
  have "do_PUT E t_seed t_write ''/api/doc'' (Parsed b) s =
      (ensure_seed_doc t_seed s,
       JsonResp 400 (JObj [(''error'',
         JStr (if \<not> isinstance_int br then ''baseRevision must be an integer''
               else ''doc must be an object''))]))"
    using handle_put_doc_invalid [OF assms(1,2) bad assms(4)]
    by (simp add: do_PUT_api_doc isinstance_int_def)
  with lazy show ?thesis by blast
qed

theorem invalid_request_rejected_witness:
  "do_PUT interpreter (clock 2026 2 3 0 0 0) (clock 2026 2 4 0 0 0) ''/api/doc''
      (Parsed (JObj [(str ''baseRevision'', JStr (str ''zero'')),
                     (str ''doc'', JObj [(str ''tasks'', JArr [])])]))
      (Some (Content (seed (clock 2025 12 16 0 0 0)))) =
     (Some (Content (seed (clock 2025 12 16 0 0 0))),
      JsonResp 400 (JObj [(''error'', JStr ''baseRevision must be an integer'')]))"
  using invalid_request_rejected [of
      "JObj [(str ''baseRevision'', JStr (str ''zero'')), (str ''doc'', JObj [(str ''tasks'', JArr [])])]"
      "JStr (str ''zero'')" "JObj [(str ''tasks'', JArr [])]" interpreter "clock 2026 2 3 0 0 0"
      "Some (Content (seed (clock 2025 12 16 0 0 0)))" "decode (seed (clock 2025 12 16 0 0 0))"
      "clock 2026 2 4 0 0 0"]
  by (simp add: dict_get_def as_int_def isinstance_int_def isinstance_dict_def)

text \<open>
  C9. A \<open>baseRevision\<close> that is a JSON boolean passes the integer check: the request is not
  answered 400 but goes to the revision comparison as 1 or 0, and \<open>false\<close> on a document at
  revision 0 commits a write.
\<close>

theorem boolean_base_revision:
  assumes "dict_get b (str ''baseRevision'') JNull = Inr (JBool v)"
    and "dict_get b (str ''doc'') JNull = Inr payload" and "isinstance_dict payload"
    and "read_json E (ensure_seed_doc t_seed s) = Inr (decode current)"
    and "stored_revision E (ensure_seed_doc t_seed s) = Inr r"
  shows "isinstance_int (JBool v :: pychar json)
         \<and> do_PUT E t_seed t_write ''/api/doc'' (Parsed b) s =
           (if (if v then 1 else 0) = r then
              (case encode payload of
                 Inr text \<Rightarrow>
                   (Some (Content (JObj [(''revision'', JInt (r + 1)),
                        (''updatedAt'', JStr (utc_now_iso t_write)), (''doc'', text)])),
                    JsonResp 200 (JObj [(''revision'', JInt (r + 1)),
                        (''updatedAt'', JStr (utc_now_iso t_write)), (''doc'', text)]))
               | Inl e \<Rightarrow> (ensure_seed_doc t_seed s, TextResp 500 ''Server error''))
            else
              (ensure_seed_doc t_seed s,
               JsonResp 409 (JObj [(''error'', JStr ''conflict''), (''current'', current)])))
         \<and> status (snd (do_PUT E t_seed t_write ''/api/doc'' (Parsed b) s)) \<noteq> 400"
proof -
  from assms(4) obtain c where c: "ensure_seed_doc t_seed s = Some (Content c)"
    and dc: "decode current = decode c"
    using read_json_Inr by blast
  from dc have "encode (decode current) = encode (decode c)" by simp
  then have cur: "c = current" by simp
  from c assms(5) have r: "stored_revision E (Some (Content c)) = Inr r" by simp
  have i: "as_int (JBool v :: pychar json) = Some (if v then 1 else 0)"
    by (simp add: as_int_def)
  have "handle_put_doc E t_seed t_write (Parsed b) s =
      (if (if v then 1 else 0) \<noteq> r then (Some (Content c), Inr (JsonResp 409 (conflict c)))
       else (case encode payload of
               Inl e \<Rightarrow> (Some (Content c), Inl e)
             | Inr w \<Rightarrow> (Some (Content (committed r t_write w)),
                          Inr (JsonResp 200 (committed r t_write w)))))"
    by (rule handle_put_doc_valid [OF assms(1) i assms(2,3) c r])
  then show ?thesis
    using c cur
    by (auto simp: do_PUT_api_doc committed_def conflict_def status_def isinstance_int_def
        as_int_def split: sum.splits dest: encode_exn)
qed

theorem boolean_base_revision_witness:
  "do_PUT interpreter (clock 2026 2 3 0 0 0) (clock 2026 2 4 0 0 0) ''/api/doc''
      (Parsed (JObj [(str ''baseRevision'', JBool False), (str ''doc'', JObj [(str ''tasks'', JArr [])])]))
      (Some (Content (seed (clock 2025 12 16 0 0 0)))) =
     (Some (Content (JObj [(''revision'', JInt 1), (''updatedAt'', JStr ''2026-02-04T00:00:00+00:00''),
                           (''doc'', JObj [(''tasks'', JArr [])])])),
      JsonResp 200 (JObj [(''revision'', JInt 1), (''updatedAt'', JStr ''2026-02-04T00:00:00+00:00''),
                          (''doc'', JObj [(''tasks'', JArr [])])]))"
  using boolean_base_revision [of
      "JObj [(str ''baseRevision'', JBool False), (str ''doc'', JObj [(str ''tasks'', JArr [])])]"
      False "JObj [(str ''tasks'', JArr [])]" interpreter "clock 2026 2 3 0 0 0"
      "Some (Content (seed (clock 2025 12 16 0 0 0)))" "seed (clock 2025 12 16 0 0 0)"
      0 "clock 2026 2 4 0 0 0"]
  by (simp add: dict_get_def isinstance_dict_def encode_def iso)

section \<open>Seeding and reading back\<close>

text \<open>
  C7. The first fetch on an absent file writes and returns the seed document: revision 0
  and the two example tasks \<open>t1\<close> and \<open>t2\<close>. A second fetch returns the same document,
  whatever the clock says then: seeding leaves an existing file alone, so it happens at
  most once.
\<close>

theorem first_get_document_seeds:
  "do_GET E serve_static t ''/api/doc'' None = (Some (Content (seed t)), JsonResp 200 (seed t))
   \<and> do_GET E serve_static t' ''/api/doc'' (Some (Content (seed t))) =
       (Some (Content (seed t)), JsonResp 200 (seed t))
   \<and> dict_get (seed t) ''revision'' JNull = Inr (JInt 0)
   \<and> dict_get (seed t) ''doc'' JNull = Inr (JObj [(''tasks'', JArr seed_tasks)])
   \<and> map (\<lambda>x. dict_get x ''id'' JNull) seed_tasks = [Inr (JStr ''t1''), Inr (JStr ''t2'')]
   \<and> ensure_seed_doc t' (Some f) = Some f
   \<and> ensure_seed_doc t' (ensure_seed_doc t s) = ensure_seed_doc t s"
proof -
  have "ensure_seed_doc t' (ensure_seed_doc t s) = ensure_seed_doc t s"
    by (cases s) simp_all
  moreover have "dict_get (seed t) ''revision'' JNull = Inr (JInt 0)"
    "dict_get (seed t) ''doc'' JNull = Inr (JObj [(''tasks'', JArr seed_tasks)])"
    "map (\<lambda>x. dict_get x ''id'' JNull) seed_tasks = [Inr (JStr ''t1''), Inr (JStr ''t2'')]"
    by (simp_all add: seed_def seed_tasks_def dict_get_def)
  ultimately show ?thesis
    by (simp add: do_GET_def handle_get_doc_def)
qed

section \<open>What a put can do to the file\<close>

text \<open>
  The exceptions of each primitive, and from them the two outcomes of the put handler: it
  either leaves the file as lazy seeding left it and answers something other than 200, or
  it commits on a request that passed both checks against the stored revision.
\<close>

lemma dict_get_exn: "dict_get d k v = Inl e \<Longrightarrow> e = AttributeError"
  by (auto simp: dict_get_def split: json.splits)

lemma py_int_exn: "py_int p x = Inl e \<Longrightarrow> e \<in> {ValueError, OverflowError, TypeError}"
  by (auto simp: py_int_def split: json.splits pyfloat.splits option.splits)

lemma read_json_exn: "read_json E s = Inl e \<Longrightarrow> e \<in> {OSError, JSONDecodeError, RecursionError}"
  by (auto simp: read_json_def split: option.splits doc_file.splits if_splits)

lemma send_json_cases:
  "send_json st v = Inl UnicodeEncodeError \<or> (\<exists>w. send_json st v = Inr (JsonResp st w))"
  by (auto simp: send_json_def split: sum.splits dest: encode_exn)

lemma put_rest_outcome:
  assumes "put_rest E t2 body current s = (s', r)"
  shows "(s' = s \<and> status (respond r) \<noteq> 200) \<or>
    (\<exists>b br base d w rv. body = Parsed b \<and> dict_get b (str ''baseRevision'') JNull = Inr br \<and>
       as_int br = Some base \<and> dict_get b (str ''doc'') JNull = Inr d \<and> isinstance_dict d \<and>
       encode d = Inr w \<and>
       dict_get current (str ''revision'') (JInt 0) = Inr rv \<and> py_int (str2int E) rv = Inr base \<and>
       s' = Some (Content (committed base t2 w)) \<and> r = Inr (JsonResp 200 (committed base t2 w)))"
proof -
  have conflict_status: "status (respond (send_json 409 v)) \<noteq> 200" for v
    using send_json_cases [of 409 v] by (auto simp: status_def)
  show ?thesis
    using assms conflict_status
    by (auto simp: put_rest_def read_body_json_def committed_def write_json_atomic_def
          send_json_def encode_committed respond_def status_def Let_def
        split: sum.splits option.splits if_splits raw_body.splits
        dest!: dict_get_exn py_int_exn encode_exn)
qed

lemma handle_put_doc_outcome:
  assumes "handle_put_doc E t1 t2 body s = (s', r)"
  shows "(s' = ensure_seed_doc t1 s \<and> status (respond r) \<noteq> 200) \<or>
    (\<exists>b br base d w. body = Parsed b \<and> dict_get b (str ''baseRevision'') JNull = Inr br \<and>
       as_int br = Some base \<and> dict_get b (str ''doc'') JNull = Inr d \<and> isinstance_dict d \<and>
       encode d = Inr w \<and> stored_revision E (ensure_seed_doc t1 s) = Inr base \<and>
       s' = Some (Content (committed base t2 w)) \<and> r = Inr (JsonResp 200 (committed base t2 w)))"
proof (cases "read_json E (ensure_seed_doc t1 s)")
  case (Inl e)
  with assms have "s' = ensure_seed_doc t1 s" "r = Inl e"
    by (auto simp: handle_put_doc_def put_load_def Let_def)
  moreover from Inl have "status (respond (Inl e)) \<noteq> 200"
    by (auto dest!: read_json_exn simp: respond_def status_def)
  ultimately show ?thesis by simp
next
  case (Inr current)
  from assms Inr have "put_rest E t2 body current (ensure_seed_doc t1 s) = (s', r)"
    by (simp add: handle_put_doc_def put_load_def Let_def)
  from put_rest_outcome [OF this] Inr show ?thesis
    by (auto simp: stored_revision_def)
qed

lemma nest_pred [simp]: "pred_json P (nest n)"
  by (induction n) simp_all

lemma nest_map [simp]: "map_json f (nest n) = nest n"
  by (induction n) simp_all

lemma encode_tasks_nest: "encode (JObj [(str ''tasks'', nest n)]) = Inr (JObj [(''tasks'', nest n)])"
  by (simp add: encode_def)

lemma depth_nest [simp]: "depth (nest n) = Suc n"
  by (induction n) simp_all

text \<open>
  C8 as stated fails on the code at the recursion boundary: a payload that \<open>json.loads\<close>
  accepts in the body, nested one level deeper than \<open>json.load\<close> accepts in the file, is
  committed with 200, and the fetch of the document right after is answered 500.
\<close>

theorem round_trip_counterexample:
  "do_PUT interpreter (clock 2026 2 3 0 0 0) (clock 2026 2 4 0 0 0) ''/api/doc''
      (Parsed (JObj [(str ''baseRevision'', JInt 0), (str ''doc'', JObj [(str ''tasks'', nest 984)])]))
      (Some (Content (seed (clock 2025 12 16 0 0 0)))) =
     (Some (Content (JObj [(''revision'', JInt 1), (''updatedAt'', JStr ''2026-02-04T00:00:00+00:00''),
                           (''doc'', JObj [(''tasks'', nest 984)])])),
      JsonResp 200 (JObj [(''revision'', JInt 1), (''updatedAt'', JStr ''2026-02-04T00:00:00+00:00''),
                          (''doc'', JObj [(''tasks'', nest 984)])]))
   \<and> do_GET interpreter (\<lambda>_. Inl (ApiError 404 ''Not found'')) (clock 2026 2 5 0 0 0) ''/api/doc''
      (Some (Content (JObj [(''revision'', JInt 1), (''updatedAt'', JStr ''2026-02-04T00:00:00+00:00''),
                            (''doc'', JObj [(''tasks'', nest 984)])]))) =
     (Some (Content (JObj [(''revision'', JInt 1), (''updatedAt'', JStr ''2026-02-04T00:00:00+00:00''),
                           (''doc'', JObj [(''tasks'', nest 984)])])),
      TextResp 500 ''Server error'')"
proof -
  have v: "stored_revision interpreter (Some (Content (seed (clock 2025 12 16 0 0 0)))) = Inr 0"
    by simp
  have "handle_put_doc interpreter (clock 2026 2 3 0 0 0) (clock 2026 2 4 0 0 0)
      (Parsed (JObj [(str ''baseRevision'', JInt 0), (str ''doc'', JObj [(str ''tasks'', nest 984)])]))
      (Some (Content (seed (clock 2025 12 16 0 0 0)))) =
     (Some (Content (committed 0 (clock 2026 2 4 0 0 0) (JObj [(''tasks'', nest 984)]))),
      Inr (JsonResp 200 (committed 0 (clock 2026 2 4 0 0 0) (JObj [(''tasks'', nest 984)]))))"
    using handle_put_doc_valid [of
        "JObj [(str ''baseRevision'', JInt 0), (str ''doc'', JObj [(str ''tasks'', nest 984)])]"
        "JInt 0" 0 "JObj [(str ''tasks'', nest 984)]"
        "clock 2026 2 3 0 0 0" "Some (Content (seed (clock 2025 12 16 0 0 0)))"
        "seed (clock 2025 12 16 0 0 0)" interpreter 0 "clock 2026 2 4 0 0 0", OF _ _ _ _ _ v]
    by (simp add: dict_get_def as_int_def isinstance_dict_def encode_tasks_nest)
  then have put: "do_PUT interpreter (clock 2026 2 3 0 0 0) (clock 2026 2 4 0 0 0) ''/api/doc''
      (Parsed (JObj [(str ''baseRevision'', JInt 0), (str ''doc'', JObj [(str ''tasks'', nest 984)])]))
      (Some (Content (seed (clock 2025 12 16 0 0 0)))) =
     (Some (Content (JObj [(''revision'', JInt 1), (''updatedAt'', JStr ''2026-02-04T00:00:00+00:00''),
                           (''doc'', JObj [(''tasks'', nest 984)])])),
      JsonResp 200 (JObj [(''revision'', JInt 1), (''updatedAt'', JStr ''2026-02-04T00:00:00+00:00''),
                          (''doc'', JObj [(''tasks'', nest 984)])]))"
    by (simp add: do_PUT_api_doc committed_def iso)
  have "read_json interpreter
      (Some (Content (JObj [(''revision'', JInt 1), (''updatedAt'', JStr ''2026-02-04T00:00:00+00:00''),
                            (''doc'', JObj [(''tasks'', nest 984)])]))) = Inl RecursionError"
    by (simp add: read_json_def)
  then have get: "do_GET interpreter (\<lambda>_. Inl (ApiError 404 ''Not found'')) (clock 2026 2 5 0 0 0) ''/api/doc''
      (Some (Content (JObj [(''revision'', JInt 1), (''updatedAt'', JStr ''2026-02-04T00:00:00+00:00''),
                            (''doc'', JObj [(''tasks'', nest 984)])]))) =
     (Some (Content (JObj [(''revision'', JInt 1), (''updatedAt'', JStr ''2026-02-04T00:00:00+00:00''),
                           (''doc'', JObj [(''tasks'', nest 984)])])),
      TextResp 500 ''Server error'')"
    by (simp add: do_GET_def handle_get_doc_def respond_def)
  from put get show ?thesis by (rule conjI)
qed

text \<open>
  C8, amended. A propose-update at revision \<open>r\<close> that is answered 200, followed by a fetch
  of the document with no write in between: when the payload is nested less deep than
  \<open>json.load\<close> accepts, the fetch returns the document with \<open>doc\<close> the payload and revision
  \<open>r + 1\<close>; otherwise the fetch is answered 500.
\<close>

theorem round_trip:
  assumes "do_PUT E t_seed t_write ''/api/doc'' (Parsed b) s = (s', resp)" and "status resp = 200"
    and "dict_get b (str ''baseRevision'') JNull = Inr br" and "as_int br = Some r"
    and "dict_get b (str ''doc'') JNull = Inr payload" and "encode payload = Inr text"
  shows "resp = JsonResp 200 (JObj [(''revision'', JInt (r + 1)),
                   (''updatedAt'', JStr (utc_now_iso t_write)), (''doc'', text)])
         \<and> do_GET E serve_static t_get ''/api/doc'' s' =
             (s', if depth text < load_limit E
                  then JsonResp 200 (JObj [(''revision'', JInt (r + 1)),
                         (''updatedAt'', JStr (utc_now_iso t_write)), (''doc'', text)])
                  else TextResp 500 ''Server error'')"
proof -
  obtain x where h: "handle_put_doc E t_seed t_write (Parsed b) s = (s', x)" and x: "resp = respond x"
    using assms(1) by (auto simp: do_PUT_def split: prod.splits)
  from handle_put_doc_outcome [OF h] assms(2-6) x
  have s': "s' = Some (Content (committed r t_write text))"
    and r: "x = Inr (JsonResp 200 (committed r t_write text))"
    by auto
  have "read_json E (Some (Content (committed r t_write text))) =
      (if depth text < load_limit E then Inr (decode (committed r t_write text))
       else Inl RecursionError)"
    by (auto simp: read_json_def)
  then have "handle_get_doc E t_get (Some (Content (committed r t_write text))) =
      (Some (Content (committed r t_write text)),
       if depth text < load_limit E then Inr (JsonResp 200 (committed r t_write text))
       else Inl RecursionError)"
    by (simp add: handle_get_doc_def)
  then have "do_GET E serve_static t_get ''/api/doc'' s' =
      (s', if depth text < load_limit E then JsonResp 200 (committed r t_write text)
           else TextResp 500 ''Server error'')"
    using s' by (simp add: do_GET_def respond_def)
  moreover have "resp = JsonResp 200 (committed r t_write text)"
    using x r by simp
  ultimately show ?thesis
    unfolding committed_def by (rule conjI [rotated])
qed

theorem round_trip_witness:
  "do_GET interpreter (\<lambda>_. Inl (ApiError 404 ''Not found'')) (clock 2026 2 5 0 0 0) ''/api/doc''
      (Some (Content (JObj [(''revision'', JInt 1), (''updatedAt'', JStr ''2026-02-04T00:00:00+00:00''),
                            (''doc'', JObj [(''tasks'', JArr [])])]))) =
     (Some (Content (JObj [(''revision'', JInt 1), (''updatedAt'', JStr ''2026-02-04T00:00:00+00:00''),
                           (''doc'', JObj [(''tasks'', JArr [])])])),
      JsonResp 200 (JObj [(''revision'', JInt 1), (''updatedAt'', JStr ''2026-02-04T00:00:00+00:00''),
                          (''doc'', JObj [(''tasks'', JArr [])])]))"
proof -
  have put: "do_PUT interpreter (clock 2026 2 3 0 0 0) (clock 2026 2 4 0 0 0) ''/api/doc''
      (Parsed (JObj [(str ''baseRevision'', JInt 0), (str ''doc'', JObj [(str ''tasks'', JArr [])])]))
      (Some (Content (seed (clock 2025 12 16 0 0 0)))) =
     (Some (Content (JObj [(''revision'', JInt 1), (''updatedAt'', JStr ''2026-02-04T00:00:00+00:00''),
                           (''doc'', JObj [(''tasks'', JArr [])])])),
      JsonResp 200 (JObj [(''revision'', JInt 1), (''updatedAt'', JStr ''2026-02-04T00:00:00+00:00''),
                          (''doc'', JObj [(''tasks'', JArr [])])]))"
    using handle_put_doc_valid [of
        "JObj [(str ''baseRevision'', JInt 0), (str ''doc'', JObj [(str ''tasks'', JArr [])])]"
        "JInt 0" 0 "JObj [(str ''tasks'', JArr [])]"
        "clock 2026 2 3 0 0 0" "Some (Content (seed (clock 2025 12 16 0 0 0)))"
        "seed (clock 2025 12 16 0 0 0)" interpreter 0 "clock 2026 2 4 0 0 0"]
    by (simp add: do_PUT_api_doc dict_get_def as_int_def isinstance_dict_def encode_def
        committed_def iso)
  show ?thesis
    using round_trip [OF put, of "JInt 0" 0 "JObj [(str ''tasks'', JArr [])]"
        "JObj [(''tasks'', JArr [])]" "\<lambda>_. Inl (ApiError 404 ''Not found'')" "clock 2026 2 5 0 0 0"]
    by (simp add: status_def dict_get_def as_int_def encode_def iso)
qed

section \<open>The revision along a run of requests\<close>

lemma do_GET_store: "fst (do_GET E sv now path (Some f)) = Some f"
  by (auto simp: do_GET_def handle_get_doc_def handle_get_inprogress_def Let_def
      split: sum.splits prod.splits)

lemma response_revision_committed [simp]:
  "response_revision (JsonResp st (committed r t d)) = Some (r + 1)"
  by (simp add: response_revision_def committed_def)

lemma file_revision_committed [simp]:
  "file_revision (Some (Content (committed r t d))) = Some (r + 1)"
  by (simp add: file_revision_def committed_def)

lemma file_revision_seed [simp]: "file_revision (Some (Content (seed t))) = Some 0"
  by (simp add: file_revision_def seed_def)

lemma file_revision_Some: "file_revision s = Some r \<Longrightarrow> \<exists>f. s = Some f"
  by (auto simp: file_revision_def split: option.splits)

lemma stored_file_revision:
  assumes "stored_revision E s = Inr x" and "file_revision s = Some r"
  shows "x = r"
proof -
  from assms(2) obtain kvs where s: "s = Some (Content (JObj kvs))"
    and k: "map_of kvs ''revision'' = Some (JInt r)"
    by (auto simp: file_revision_def split: option.splits doc_file.splits json.splits)
  from assms(1) s have rd: "read_json E s = Inr (decode (JObj kvs))"
    by (auto simp: stored_revision_def dest!: read_json_Inr split: sum.splits)
  have "dict_get (decode (JObj kvs)) (str ''revision'') (decode (JInt 0)) = Inr (JInt r)"
    unfolding dict_get_decode using k by (simp add: dict_get_def)
  with assms(1) rd show ?thesis
    by (simp add: stored_revision_def py_int_def)
qed

lemma handle_step:
  assumes "file_revision s = Some r" and "handle E sv req s = (s', resp)"
  shows "if accepted req resp
         then response_revision resp = Some (r + 1) \<and> file_revision s' = Some (r + 1)
         else file_revision s' = Some r"
proof (cases req)
  case (GET now path)
  from assms(1) obtain f where "s = Some f"
    using file_revision_Some by blast
  with assms GET have "s' = s"
    using do_GET_store [of E sv now path f] by (simp add: handle_def)
  with assms(1) GET show ?thesis by (simp add: accepted_def)
next
  case (PUT t1 t2 path body)
  from assms(1) obtain f where s: "s = Some f"
    using file_revision_Some by blast
  show ?thesis
  proof (cases "path = ''/api/doc''")
    case False
    with assms PUT show ?thesis
      by (auto simp: handle_def do_PUT_def accepted_def respond_def status_def)
  next
    case True
    with assms(2) PUT obtain x where h: "handle_put_doc E t1 t2 body s = (s', x)"
      and x: "resp = respond x"
      by (auto simp: handle_def do_PUT_def split: prod.splits)
    from handle_put_doc_outcome [OF h] show ?thesis
    proof
      assume "s' = ensure_seed_doc t1 s \<and> status (respond x) \<noteq> 200"
      with s assms(1) x PUT show ?thesis by (simp add: accepted_def)
    next
      assume "\<exists>b br base d w. body = Parsed b \<and> dict_get b (str ''baseRevision'') JNull = Inr br \<and>
        as_int br = Some base \<and> dict_get b (str ''doc'') JNull = Inr d \<and> isinstance_dict d \<and>
        encode d = Inr w \<and> stored_revision E (ensure_seed_doc t1 s) = Inr base \<and>
        s' = Some (Content (committed base t2 w)) \<and> x = Inr (JsonResp 200 (committed base t2 w))"
      then obtain base w where sr: "stored_revision E (ensure_seed_doc t1 s) = Inr base"
        and s': "s' = Some (Content (committed base t2 w))"
        and xr: "x = Inr (JsonResp 200 (committed base t2 w))"
        by blast
      from sr s have "stored_revision E s = Inr base" by simp
      from stored_file_revision [OF this assms(1)] have "base = r" .
      with s' xr x PUT show ?thesis
        by (simp add: accepted_def status_def)
    qed
  qed
qed

lemma serve_chain:
  "file_revision s = Some r \<Longrightarrow> 0 \<le> r \<Longrightarrow> revisions_chain r (serve E sv reqs s)"
proof (induction reqs arbitrary: s r)
  case Nil
  then show ?case by simp
next
  case (Cons req reqs)
  obtain s' resp where h: "handle E sv req s = (s', resp)" by (cases "handle E sv req s")
  from handle_step [OF Cons.prems(1) h] Cons.prems(2) Cons.IH [of s'] h
  show ?case by (auto split: if_splits)
qed

lemma upto_shift: "(r + 1) # [r + 2 .. r + 1 + int n] = [r + 1 .. r + int (Suc n)]"
proof -
  have a: "r + 2 = r + 1 + 1" by simp
  have b: "r + 1 + int n = r + int (Suc n)" by simp
  show ?thesis unfolding a b by (rule upto_rec1 [symmetric]) simp
qed

lemma chain_accepted_revisions:
  "revisions_chain r tr \<Longrightarrow>
     accepted_revisions tr = [r + 1 .. r + int (length (accepted_revisions tr))]"
proof (induction tr arbitrary: r)
  case Nil
  then show ?case by (simp add: accepted_revisions_def map_filter_simps)
next
  case (Cons x tr)
  obtain req resp s where x: "x = (req, resp, s)" by (cases x)
  define n where "n = length (accepted_revisions tr)"
  show ?case
  proof (cases "accepted req resp")
    case True
    with Cons.prems x have rr: "response_revision resp = Some (r + 1)"
      and ch: "revisions_chain (r + 1) tr" by auto
    have "accepted_revisions tr = [r + 1 + 1 .. r + 1 + int n]"
      unfolding n_def by (rule Cons.IH [OF ch])
    then have ih: "accepted_revisions tr = [r + 2 .. r + 1 + int n]"
      by (simp add: add.assoc)
    have hd: "accepted_revisions (x # tr) = (r + 1) # accepted_revisions tr"
      using True rr x by (simp add: accepted_revisions_def map_filter_simps)
    then have len: "length (accepted_revisions (x # tr)) = Suc n"
      by (simp add: n_def)
    have "accepted_revisions (x # tr) = (r + 1) # [r + 2 .. r + 1 + int n]"
      unfolding hd by (rule arg_cong [OF ih])
    also have "\<dots> = [r + 1 .. r + int (Suc n)]"
      by (rule upto_shift)
    finally show ?thesis
      unfolding len .
  next
    case False
    with Cons.prems x have ch: "revisions_chain r tr" by auto
    from False x have "accepted_revisions (x # tr) = accepted_revisions tr"
      by (simp add: accepted_revisions_def map_filter_simps)
    with Cons.IH [OF ch] show ?thesis by simp
  qed
qed

section \<open>Two threads\<close>




text \<open>
  A thread that loaded the seed document and then commits on it, whatever the file holds
  by then.
\<close>

lemma loaded_commits:
  assumes "dict_get b (str ''baseRevision'') JNull = Inr (JInt 0)"
    and "dict_get b (str ''doc'') JNull = Inr d" and "isinstance_dict d"
    and "encode d = Inr w"
  shows "thread_step E (Loaded t2 (Parsed b) (decode (seed t0))) s =
     (Finished (JsonResp 200 (committed 0 t2 w)), Some (Content (committed 0 t2 w)))"
  using assms
  by (simp add: thread_step_def put_rest_def read_body_json_def as_int_def seed_def
      dict_get_def [of "JObj _"] py_int_def write_json_atomic_def send_json_def
      encode_committed committed_def Let_def)

lemma start_loads_seed:
  "thread_step E (Start t1 t2 body) (Some (Content (seed t0))) =
     (Loaded t2 body (decode (seed t0)), Some (Content (seed t0)))"
  by (simp add: thread_step_def put_load_def)

section \<open>Revisions of accepted writes\<close>

text \<open>
  C5 as stated fails on the code: it holds for requests handled one after the other only.
  With two writers on two threads, both loading the seed document before either writes,
  two writes are accepted and both report revision 1.
\<close>

theorem revision_counterexample:
  "run_schedule interpreter [First, Second, Second, First]
      (Start (clock 2026 2 3 0 0 0) (clock 2026 2 3 0 0 2)
         (Parsed (JObj [(str ''baseRevision'', JInt 0),
                        (str ''doc'', JObj [(str ''tasks'', JArr [JObj [(str ''id'', JStr (str ''a''))]])])])),
       Start (clock 2026 2 3 0 0 0) (clock 2026 2 3 0 0 7)
         (Parsed (JObj [(str ''baseRevision'', JInt 0),
                        (str ''doc'', JObj [(str ''tasks'', JArr [JObj [(str ''id'', JStr (str ''b''))]])])])),
       Some (Content (seed (clock 2025 12 16 0 0 0)))) =
     (Finished (JsonResp 200 (JObj [(''revision'', JInt 1), (''updatedAt'', JStr ''2026-02-03T00:00:02+00:00''),
                   (''doc'', JObj [(''tasks'', JArr [JObj [(''id'', JStr ''a'')]])])])),
      Finished (JsonResp 200 (JObj [(''revision'', JInt 1), (''updatedAt'', JStr ''2026-02-03T00:00:07+00:00''),
                   (''doc'', JObj [(''tasks'', JArr [JObj [(''id'', JStr ''b'')]])])])),
      Some (Content (JObj [(''revision'', JInt 1), (''updatedAt'', JStr ''2026-02-03T00:00:02+00:00''),
                   (''doc'', JObj [(''tasks'', JArr [JObj [(''id'', JStr ''a'')]])])])))"
proof -
  have a: "thread_step interpreter (Loaded (clock 2026 2 3 0 0 2)
        (Parsed (JObj [(str ''baseRevision'', JInt 0),
                       (str ''doc'', JObj [(str ''tasks'', JArr [JObj [(str ''id'', JStr (str ''a''))]])])]))
        (decode (seed (clock 2025 12 16 0 0 0)))) s =
     (Finished (JsonResp 200 (committed 0 (clock 2026 2 3 0 0 2)
          (JObj [(''tasks'', JArr [JObj [(''id'', JStr ''a'')]])]))),
      Some (Content (committed 0 (clock 2026 2 3 0 0 2)
          (JObj [(''tasks'', JArr [JObj [(''id'', JStr ''a'')]])]))))" for s
    by (rule loaded_commits [where d = "JObj [(str ''tasks'', JArr [JObj [(str ''id'', JStr (str ''a''))]])]"
          and w = "JObj [(''tasks'', JArr [JObj [(''id'', JStr ''a'')]])]"])
       (simp_all add: dict_get_def isinstance_dict_def encode_def)
  have b: "thread_step interpreter (Loaded (clock 2026 2 3 0 0 7)
        (Parsed (JObj [(str ''baseRevision'', JInt 0),
                       (str ''doc'', JObj [(str ''tasks'', JArr [JObj [(str ''id'', JStr (str ''b''))]])])]))
        (decode (seed (clock 2025 12 16 0 0 0)))) s =
     (Finished (JsonResp 200 (committed 0 (clock 2026 2 3 0 0 7)
          (JObj [(''tasks'', JArr [JObj [(''id'', JStr ''b'')]])]))),
      Some (Content (committed 0 (clock 2026 2 3 0 0 7)
          (JObj [(''tasks'', JArr [JObj [(''id'', JStr ''b'')]])]))))" for s
    by (rule loaded_commits [where d = "JObj [(str ''tasks'', JArr [JObj [(str ''id'', JStr (str ''b''))]])]"
          and w = "JObj [(''tasks'', JArr [JObj [(''id'', JStr ''b'')]])]"])
       (simp_all add: dict_get_def isinstance_dict_def encode_def)
  have "run_schedule interpreter [First, Second, Second, First]
      (Start (clock 2026 2 3 0 0 0) (clock 2026 2 3 0 0 2)
         (Parsed (JObj [(str ''baseRevision'', JInt 0),
                        (str ''doc'', JObj [(str ''tasks'', JArr [JObj [(str ''id'', JStr (str ''a''))]])])])),
       Start (clock 2026 2 3 0 0 0) (clock 2026 2 3 0 0 7)
         (Parsed (JObj [(str ''baseRevision'', JInt 0),
                        (str ''doc'', JObj [(str ''tasks'', JArr [JObj [(str ''id'', JStr (str ''b''))]])])])),
       Some (Content (seed (clock 2025 12 16 0 0 0)))) =
     (Finished (JsonResp 200 (committed 0 (clock 2026 2 3 0 0 2)
          (JObj [(''tasks'', JArr [JObj [(''id'', JStr ''a'')]])]))),
      Finished (JsonResp 200 (committed 0 (clock 2026 2 3 0 0 7)
          (JObj [(''tasks'', JArr [JObj [(''id'', JStr ''b'')]])]))),
      Some (Content (committed 0 (clock 2026 2 3 0 0 2)
          (JObj [(''tasks'', JArr [JObj [(''id'', JStr ''a'')]])]))))"
    by (simp only: run_schedule.simps start_loads_seed a b prod.case)
  then show ?thesis
    by (simp add: committed_def iso)
qed

text \<open>
  C5, amended. Over every sequence of requests handled one after the other from the seed
  document, the revision in the file starts at 0 and is never negative, each accepted
  write reports and stores the previous revision plus 1, every other request leaves it as
  it is, and the revisions of the accepted writes are 1, 2, 3, ... with no gap and no
  repetition.
\<close>

theorem revision_invariant:
  "revisions_chain 0 (serve E sv reqs (Some (Content (seed t0))))
   \<and> accepted_revisions (serve E sv reqs (Some (Content (seed t0)))) =
       [1 .. int (length (accepted_revisions (serve E sv reqs (Some (Content (seed t0))))))]
   \<and> distinct (accepted_revisions (serve E sv reqs (Some (Content (seed t0)))))"
proof -
  have ch: "revisions_chain 0 (serve E sv reqs (Some (Content (seed t0))))"
    by (rule serve_chain) simp_all
  from chain_accepted_revisions [OF ch]
  have eq: "accepted_revisions (serve E sv reqs (Some (Content (seed t0)))) =
       [1 .. int (length (accepted_revisions (serve E sv reqs (Some (Content (seed t0))))))]"
    by simp
  have "distinct [1 .. int (length (accepted_revisions (serve E sv reqs (Some (Content (seed t0))))))]"
    by simp
  with eq have "distinct (accepted_revisions (serve E sv reqs (Some (Content (seed t0)))))"
    by simp
  with ch eq show ?thesis by blast
qed

theorem revision_invariant_witness:
  "accepted_revisions (serve interpreter (\<lambda>_. Inl (ApiError 404 ''Not found''))
      [PUT (clock 2026 2 3 0 0 0) (clock 2026 2 3 0 0 7) ''/api/doc''
         (Parsed (JObj [(str ''baseRevision'', JInt 0), (str ''doc'', JObj [(str ''tasks'', JArr [])])])),
       PUT (clock 2026 2 3 0 0 2) (clock 2026 2 3 0 0 3) ''/api/doc''
         (Parsed (JObj [(str ''baseRevision'', JInt 0), (str ''doc'', JObj [(str ''tasks'', JArr [JNull])])])),
       GET (clock 2026 2 3 0 0 4) ''/api/doc'',
       PUT (clock 2026 2 3 0 0 5) (clock 2026 2 3 0 0 6) ''/api/doc''
         (Parsed (JObj [(str ''baseRevision'', JInt 1), (str ''doc'', JObj [(str ''tasks'', JArr [JNull])])]))]
      (Some (Content (seed (clock 2025 12 16 0 0 0))))) = [1, 2]"
proof -
  let ?d0 = "JObj [(str ''tasks'', JArr [])] :: pychar json"
  let ?d1 = "JObj [(str ''tasks'', JArr [JNull])] :: pychar json"
  let ?w0 = "JObj [(''tasks'', JArr [])] :: char json"
  let ?w1 = "JObj [(''tasks'', JArr [JNull])] :: char json"
  let ?s0 = "Some (Content (seed (clock 2025 12 16 0 0 0)))"
  let ?c1 = "committed 0 (clock 2026 2 3 0 0 7) ?w0"
  let ?c2 = "committed 1 (clock 2026 2 3 0 0 6) ?w1"
  have r1: "stored_revision interpreter (Some (Content ?c1)) = Inr 1"
    using stored_revision_committed [of ?w0 interpreter 0] by simp
  have p1: "do_PUT interpreter (clock 2026 2 3 0 0 0) (clock 2026 2 3 0 0 7) ''/api/doc''
      (Parsed (JObj [(str ''baseRevision'', JInt 0), (str ''doc'', ?d0)])) ?s0 =
      (Some (Content ?c1), JsonResp 200 ?c1)"
    using handle_put_doc_valid [of "JObj [(str ''baseRevision'', JInt 0), (str ''doc'', ?d0)]"
        "JInt 0" 0 ?d0 "clock 2026 2 3 0 0 0" ?s0 "seed (clock 2025 12 16 0 0 0)" interpreter 0
        "clock 2026 2 3 0 0 7"]
    by (simp add: do_PUT_api_doc dict_get_def as_int_def isinstance_dict_def encode_def)
  have p2: "do_PUT interpreter (clock 2026 2 3 0 0 2) (clock 2026 2 3 0 0 3) ''/api/doc''
      (Parsed (JObj [(str ''baseRevision'', JInt 0), (str ''doc'', ?d1)])) (Some (Content ?c1)) =
      (Some (Content ?c1), JsonResp 409 (conflict ?c1))"
    using handle_put_doc_valid [of "JObj [(str ''baseRevision'', JInt 0), (str ''doc'', ?d1)]"
        "JInt 0" 0 ?d1 "clock 2026 2 3 0 0 2" "Some (Content ?c1)" ?c1 interpreter 1
        "clock 2026 2 3 0 0 3", OF _ _ _ _ _ r1]
    by (simp add: do_PUT_api_doc dict_get_def as_int_def isinstance_dict_def)
  have g: "do_GET interpreter (\<lambda>_. Inl (ApiError 404 ''Not found'')) (clock 2026 2 3 0 0 4)
      ''/api/doc'' (Some (Content ?c1)) = (Some (Content ?c1), JsonResp 200 ?c1)"
    by (simp add: do_GET_def handle_get_doc_def read_json_def)
  have p3: "do_PUT interpreter (clock 2026 2 3 0 0 5) (clock 2026 2 3 0 0 6) ''/api/doc''
      (Parsed (JObj [(str ''baseRevision'', JInt 1), (str ''doc'', ?d1)])) (Some (Content ?c1)) =
      (Some (Content ?c2), JsonResp 200 ?c2)"
    using handle_put_doc_valid [of "JObj [(str ''baseRevision'', JInt 1), (str ''doc'', ?d1)]"
        "JInt 1" 1 ?d1 "clock 2026 2 3 0 0 5" "Some (Content ?c1)" ?c1 interpreter 1
        "clock 2026 2 3 0 0 6", OF _ _ _ _ _ r1]
    by (simp add: do_PUT_api_doc dict_get_def as_int_def isinstance_dict_def encode_def)
  show ?thesis
    using revision_invariant [of interpreter "\<lambda>_. Inl (ApiError 404 ''Not found'')"
      "[PUT (clock 2026 2 3 0 0 0) (clock 2026 2 3 0 0 7) ''/api/doc''
         (Parsed (JObj [(str ''baseRevision'', JInt 0), (str ''doc'', JObj [(str ''tasks'', JArr [])])])),
       PUT (clock 2026 2 3 0 0 2) (clock 2026 2 3 0 0 3) ''/api/doc''
         (Parsed (JObj [(str ''baseRevision'', JInt 0), (str ''doc'', JObj [(str ''tasks'', JArr [JNull])])])),
       GET (clock 2026 2 3 0 0 4) ''/api/doc'',
       PUT (clock 2026 2 3 0 0 5) (clock 2026 2 3 0 0 6) ''/api/doc''
         (Parsed (JObj [(str ''baseRevision'', JInt 1), (str ''doc'', JObj [(str ''tasks'', JArr [JNull])])]))]"
      "clock 2025 12 16 0 0 0"]
    by (simp add: handle_def p1 p2 g p3 accepted_revisions_def map_filter_simps accepted_def
        status_def conflict_def response_revision_def)
qed

section \<open>Writers one after the other\<close>






section \<open>The in-progress view\<close>

lemma map_of_without_ui [simp]:
  "map_of (filter (\<lambda>kv. fst kv \<noteq> ''collapsed'' \<and> fst kv \<noteq> ''parentId'') kvs) ''done'' =
     map_of kvs ''done''"
  by (induction kvs) auto

lemma done_without_ui_fields [simp]:
  "done_false_or_absent (without_ui_fields t) = done_false_or_absent t"
  by (cases t) (simp_all add: done_false_or_absent_def without_ui_fields_def)

lemma typed_without_ui_fields [simp]:
  "task_typed (without_ui_fields t) = task_typed t"
  by (cases t) (simp_all add: task_typed_def without_ui_fields_def)

lemma truthy_decode [simp]: "truthy (decode d) = truthy d"
  by (cases d) (simp_all add: truthy_def)

lemma done_of_typed:
  assumes "task_typed t"
  shows "\<exists>d. dict_get (decode t) (str ''done'') JNull = Inr (decode d) \<and>
             (\<not> truthy d) = done_false_or_absent t"
proof -
  from assms obtain kvs where t: "t = JObj kvs"
    by (cases t) (simp_all add: task_typed_def)
  have get: "dict_get (decode t) (str ''done'') (decode JNull) =
      map_sum id decode (dict_get t ''done'' JNull)"
    by (rule dict_get_decode)
  show ?thesis
  proof (cases "map_of kvs ''done''")
    case None
    with t get have "dict_get (decode t) (str ''done'') JNull = Inr (decode JNull)"
      by (simp add: dict_get_def)
    moreover from None t have "(\<not> truthy (JNull :: char json)) = done_false_or_absent t"
      by (simp add: truthy_def done_false_or_absent_def)
    ultimately show ?thesis by blast
  next
    case (Some d)
    with assms t obtain b where b: "d = JBool b"
      by (cases d) (simp_all add: task_typed_def)
    from Some t get have "dict_get (decode t) (str ''done'') JNull = Inr (decode d)"
      by (simp add: dict_get_def)
    moreover from Some t b have "(\<not> truthy d) = done_false_or_absent t"
      by (simp add: truthy_def done_false_or_absent_def)
    ultimately show ?thesis by blast
  qed
qed

lemma inprogress_of_typed:
  "list_all task_typed ts \<Longrightarrow>
     inprogress_of (map decode ts) = Inr (map decode (filter done_false_or_absent ts))"
proof (induction ts)
  case Nil
  then show ?case by simp
next
  case (Cons t ts)
  then have "task_typed t" and ih: "inprogress_of (map decode ts) =
      Inr (map decode (filter done_false_or_absent ts))" by simp_all
  from done_of_typed [OF this(1)] obtain d
    where "dict_get (decode t) (str ''done'') JNull = Inr (decode d)"
      and "(\<not> truthy d) = done_false_or_absent t" by blast
  with ih show ?case by simp
qed

lemma same_but_ui_fields:
  assumes "map without_ui_fields ts' = map without_ui_fields ts"
  shows "map done_false_or_absent ts' = map done_false_or_absent ts"
    and "list_all task_typed ts' = list_all task_typed ts"
proof -
  from assms have "map done_false_or_absent (map without_ui_fields ts') =
      map done_false_or_absent (map without_ui_fields ts)" by simp
  then show "map done_false_or_absent ts' = map done_false_or_absent ts"
    by (simp add: comp_def)
  from assms have "map task_typed (map without_ui_fields ts') =
      map task_typed (map without_ui_fields ts)" by simp
  then have "map task_typed ts' = map task_typed ts"
    by (simp add: comp_def)
  then have "list_all id (map task_typed ts') = list_all id (map task_typed ts)" by simp
  then show "list_all task_typed ts' = list_all task_typed ts"
    by (simp add: list_all_iff)
qed

text \<open>
  C6. On a stored document whose tasks are as the data model has them, the in-progress
  view is answered 200 with exactly the tasks whose \<open>done\<close> is false or absent, in their
  original order (a \<open>filter\<close> of the list); and a task list that differs from the stored
  one in \<open>collapsed\<close> and \<open>parentId\<close> fields only has the same positions selected.
\<close>

theorem get_inprogress_filters:
  assumes "read_json E (ensure_seed_doc now s) = Inr (decode payload)"
    and "dict_get payload ''doc'' (JObj []) = Inr doc"
    and "dict_get doc ''tasks'' (JArr []) = Inr (JArr ts)"
    and "list_all task_typed ts"
  shows "do_GET E serve_static now ''/api/tasks/inprogress'' s =
           (ensure_seed_doc now s, JsonResp 200 (JArr (filter done_false_or_absent ts)))
         \<and> (\<forall>ts'. map without_ui_fields ts' = map without_ui_fields ts \<longrightarrow>
               inprogress_of (map decode ts') = Inr (map decode (filter done_false_or_absent ts')) \<and>
               map done_false_or_absent ts' = map done_false_or_absent ts)"
proof -
  have d: "dict_get (decode payload) (str ''doc'') (JObj []) = Inr (decode doc)"
    using dict_get_decode [of payload "''doc''" "JObj []"] assms(2) by simp
  have t: "dict_get (decode doc) (str ''tasks'') (JArr []) = Inr (JArr (map decode ts))"
    using dict_get_decode [of doc "''tasks''" "JArr []"] assms(3) by simp
  have "send_json 200 (JArr (map decode (filter done_false_or_absent ts))) =
      Inr (JsonResp 200 (JArr (filter done_false_or_absent ts)))"
    using send_json_decode [of 200 "JArr (filter done_false_or_absent ts)"] by simp
  then have "handle_get_inprogress E now s =
      (ensure_seed_doc now s, Inr (JsonResp 200 (JArr (filter done_false_or_absent ts))))"
    using assms(1) d t inprogress_of_typed [OF assms(4)]
    by (simp add: handle_get_inprogress_def Let_def py_iter_def)
  then have "do_GET E serve_static now ''/api/tasks/inprogress'' s =
           (ensure_seed_doc now s, JsonResp 200 (JArr (filter done_false_or_absent ts)))"
    by (simp add: do_GET_def)
  moreover have "inprogress_of (map decode ts') = Inr (map decode (filter done_false_or_absent ts')) \<and>
               map done_false_or_absent ts' = map done_false_or_absent ts"
    if "map without_ui_fields ts' = map without_ui_fields ts" for ts'
    using same_but_ui_fields [OF that] assms(4) inprogress_of_typed [of ts'] by simp
  ultimately show ?thesis by blast
qed

theorem get_inprogress_filters_witness:
  "do_GET interpreter (\<lambda>_. Inl (ApiError 404 ''Not found'')) (clock 2026 2 3 0 0 0) ''/api/tasks/inprogress''
      (Some (Content (JObj [(''revision'', JInt 2), (''updatedAt'', JStr ''2025-12-16T00:00:00+00:00''),
         (''doc'', JObj [(''tasks'', JArr
            [JObj [(''id'', JStr ''a''), (''done'', JBool True), (''collapsed'', JBool True)],
             JObj [(''id'', JStr ''b''), (''parentId'', JStr ''a'')],
             JObj [(''id'', JStr ''c''), (''done'', JBool False), (''parentId'', JNull)]])])]))) =
     (Some (Content (JObj [(''revision'', JInt 2), (''updatedAt'', JStr ''2025-12-16T00:00:00+00:00''),
         (''doc'', JObj [(''tasks'', JArr
            [JObj [(''id'', JStr ''a''), (''done'', JBool True), (''collapsed'', JBool True)],
             JObj [(''id'', JStr ''b''), (''parentId'', JStr ''a'')],
             JObj [(''id'', JStr ''c''), (''done'', JBool False), (''parentId'', JNull)]])])])),
      JsonResp 200 (JArr
            [JObj [(''id'', JStr ''b''), (''parentId'', JStr ''a'')],
             JObj [(''id'', JStr ''c''), (''done'', JBool False), (''parentId'', JNull)]]))"
proof -
  let ?ts = "[JObj [(''id'', JStr ''a''), (''done'', JBool True), (''collapsed'', JBool True)],
              JObj [(''id'', JStr ''b''), (''parentId'', JStr ''a'')],
              JObj [(''id'', JStr ''c''), (''done'', JBool False), (''parentId'', JNull)]] :: char json list"
  let ?doc = "JObj [(''tasks'', JArr ?ts)] :: char json"
  let ?payload = "JObj [(''revision'', JInt 2), (''updatedAt'', JStr ''2025-12-16T00:00:00+00:00''),
                        (''doc'', ?doc)] :: char json"
  have rd: "read_json interpreter (ensure_seed_doc (clock 2026 2 3 0 0 0) (Some (Content ?payload))) =
      Inr (decode ?payload)"
    by (simp add: read_json_def)
  have "do_GET interpreter (\<lambda>_. Inl (ApiError 404 ''Not found'')) (clock 2026 2 3 0 0 0)
      ''/api/tasks/inprogress'' (Some (Content ?payload)) =
      (ensure_seed_doc (clock 2026 2 3 0 0 0) (Some (Content ?payload)),
       JsonResp 200 (JArr (filter done_false_or_absent ?ts)))"
    by (rule get_inprogress_filters [OF rd, where doc = ?doc, THEN conjunct1])
       (simp_all add: dict_get_def task_typed_def)
  then show ?thesis
    by (simp add: done_false_or_absent_def)
qed

text \<open>
  C10. When the stored object has no \<open>doc\<close> key, or its \<open>doc\<close> is an object with no
  \<open>tasks\<close> key, the in-progress view is answered 200 with the empty array: the lookups
  fall back to the empty dict and the empty list.
\<close>

theorem get_inprogress_missing_keys:
  assumes "read_json E (ensure_seed_doc now s) = Inr (JObj kvs)"
    and "map_of kvs (str ''doc'') = None \<or>
         (\<exists>dkvs. map_of kvs (str ''doc'') = Some (JObj dkvs) \<and> map_of dkvs (str ''tasks'') = None)"
  shows "do_GET E serve_static now ''/api/tasks/inprogress'' s =
           (ensure_seed_doc now s, JsonResp 200 (JArr []))"
proof -
  have "send_json 200 (JArr []) = Inr (JsonResp 200 (JArr []))"
    using send_json_decode [of 200 "JArr []"] by simp
  with assms show ?thesis
    by (auto simp: do_GET_def handle_get_inprogress_def Let_def dict_get_def py_iter_def)
qed

theorem get_inprogress_missing_keys_witness:
  "do_GET interpreter (\<lambda>_. Inl (ApiError 404 ''Not found'')) (clock 2026 2 3 0 0 0) ''/api/tasks/inprogress''
      (Some (Content (JObj [(''revision'', JInt 4), (''doc'', JObj [])]))) =
     (Some (Content (JObj [(''revision'', JInt 4), (''doc'', JObj [])])), JsonResp 200 (JArr []))
   \<and> do_GET interpreter (\<lambda>_. Inl (ApiError 404 ''Not found'')) (clock 2026 2 3 0 0 0) ''/api/tasks/inprogress''
      (Some (Content (JObj [(''revision'', JInt 4)]))) =
     (Some (Content (JObj [(''revision'', JInt 4)])), JsonResp 200 (JArr []))"
  using get_inprogress_missing_keys [of interpreter "clock 2026 2 3 0 0 0"
      "Some (Content (JObj [(''revision'', JInt 4), (''doc'', JObj [])]))"
      "[(str ''revision'', JInt 4), (str ''doc'', JObj [])]" "\<lambda>_. Inl (ApiError 404 ''Not found'')"]
    get_inprogress_missing_keys [of interpreter "clock 2026 2 3 0 0 0"
      "Some (Content (JObj [(''revision'', JInt 4)]))"
      "[(str ''revision'', JInt 4)]" "\<lambda>_. Inl (ApiError 404 ''Not found'')"]
  by (simp add: read_json_def)

end
